theory Spec2Isabelle
  imports Main
begin

section \<open>The packet capture subsystem of TextCast-TV\<close>

text \<open>
  A shallow embedding of \<^verbatim>\<open>services/packet_monitor.py\<close> and of
  \<^verbatim>\<open>db_service.log_packet\<close>. Everything the Python does beyond returning a
  value is explicit: the module globals are fields of a record, the \<^verbatim>\<open>threading.Event\<close>
  and \<^verbatim>\<open>threading.Thread\<close> objects live in two stores indexed by their identity,
  log lines, sleeps and calls into the collaborators are entries of a trace, and every
  exception is a value of a sum type.
\<close>

subsection \<open>Exceptions, log lines and effects\<close>

text \<open>
  The exception classes the two modules tell apart; \<open>OtherException\<close> stands for any
  other subclass of \<^verbatim>\<open>Exception\<close>. The string is the message.
\<close>

datatype exn =
    PermissionError string
  | ImportError string
  | SQLAlchemyError string
  | OtherException string

datatype level = DEBUG | INFO | WARNING | ERROR

text \<open>Opaque handles of the Flask application and of the Flask-SocketIO instance.\<close>

datatype app = Flask nat
datatype sio = SocketIO nat

text \<open>The dictionary \<^verbatim>\<open>packet_data\<close> built for the WebSocket event.\<close>

record packet_data =
  pd_protocol :: string
  pd_source_ip :: string
  pd_dest_ip :: string
  pd_size_bytes :: nat
  pd_session_id :: int
  pd_timestamp :: nat

text \<open>
  What the code does to the outside, in order. \<open>Logged\<close> keeps the level and the
  format string of a \<^verbatim>\<open>logger\<close> call; \<open>LogPacketCall\<close> is a call of
  \<^verbatim>\<open>db_service.log_packet\<close> with its five keyword arguments; \<open>EmitCall\<close> is a call of
  \<^verbatim>\<open>_socketio.emit(event, data, namespace=...)\<close>; \<open>Slept\<close> is \<^verbatim>\<open>time.sleep\<close>.
\<close>

datatype effect =
    Logged level string
  | LogPacketCall int string string string nat
  | EmitCall sio string packet_data string
  | Slept nat

subsection \<open>Captured frames\<close>

text \<open>
  A Scapy packet, as far as the handler looks at it: \<open>layer_IP\<close> is
  \<^verbatim>\<open>packet[IP]\<close> when \<^verbatim>\<open>packet.haslayer(IP)\<close> holds and \<open>None\<close> otherwise, the three
  flags are \<^verbatim>\<open>haslayer(TCP)\<close>, \<^verbatim>\<open>haslayer(UDP)\<close> and \<^verbatim>\<open>haslayer(ICMP)\<close>,
  and \<open>wire_len\<close> is \<^verbatim>\<open>len(packet)\<close>.
\<close>

record ip_layer =
  src :: string
  dst :: string
  proto :: nat

record packet =
  layer_IP :: "ip_layer option"
  has_TCP :: bool
  has_UDP :: bool
  has_ICMP :: bool
  wire_len :: nat

text \<open>Python's \<^verbatim>\<open>str\<close> on a non-negative integer: its decimal digits.\<close>

definition digit_char :: "nat \<Rightarrow> char" where
  "digit_char d = ''0123456789'' ! d"

function str_nat :: "nat \<Rightarrow> string" where
  "str_nat n = (if n < 10 then [digit_char n] else str_nat (n div 10) @ [digit_char (n mod 10)])"
  by pat_completeness auto
termination
  by (relation "measure id") auto

declare str_nat.simps [simp del]

definition is_digit :: "char \<Rightarrow> bool" where
  "is_digit c = (c \<in> set ''0123456789'')"

text \<open>Reading a decimal string back (Python's \<^verbatim>\<open>int\<close> on a digit string).\<close>

definition digit_val :: "char \<Rightarrow> nat" where
  "digit_val c = of_char c - 48"

definition int_of_str :: "string \<Rightarrow> nat" where
  "int_of_str s = foldl (\<lambda>a c. 10 * a + digit_val c) 0 s"

text \<open>Lines 257-265 of \<^verbatim>\<open>_handle_packet\<close>: the protocol name.\<close>

definition protocol_name :: "packet \<Rightarrow> ip_layer \<Rightarrow> string" where
  "protocol_name packet ip =
     (if has_TCP packet then ''TCP''
      else if has_UDP packet then ''UDP''
      else if has_ICMP packet then ''ICMP''
      else str_nat (proto ip))"

subsection \<open>The persistence collaborator: \<^verbatim>\<open>db_service.log_packet\<close>\<close>

record packet_log =
  pl_session_id :: int
  pl_protocol :: string
  pl_source_ip :: string
  pl_dest_ip :: string
  pl_size_bytes :: nat
  pl_timestamp :: nat

text \<open>
  The SQLAlchemy session: the rows of \<^verbatim>\<open>packet_logs\<close> that are committed and the
  rows added but not yet committed.
\<close>

record db_session =
  committed :: "packet_log list"
  pending :: "packet_log list"

text \<open>
  A computation that may raise: its result or the exception, the effects it had, and the
  database session it leaves.
\<close>

type_synonym 'a outcome = "(exn + 'a) \<times> effect list \<times> db_session"

text \<open>
  \<open>commit_exc\<close> is what \<^verbatim>\<open>db.session.commit()\<close> does in this call (\<open>None\<close>: it
  succeeds) and \<open>utcnow\<close> is the clock. A \<^verbatim>\<open>SQLAlchemyError\<close> is rolled back, logged
  and turned into the result \<open>None\<close>; any other exception leaves the function.
\<close>

definition log_packet ::
  "exn option \<Rightarrow> nat \<Rightarrow> int \<Rightarrow> string \<Rightarrow> string \<Rightarrow> string \<Rightarrow> nat \<Rightarrow> db_session
     \<Rightarrow> (packet_log option) outcome" where
  "log_packet commit_exc utcnow session_id protocol source_ip dest_ip size_bytes db =
     (let pkt_log = \<lparr>pl_session_id = session_id, pl_protocol = protocol,
                      pl_source_ip = source_ip, pl_dest_ip = dest_ip,
                      pl_size_bytes = size_bytes, pl_timestamp = utcnow\<rparr>;
          db1 = db\<lparr>pending := pending db @ [pkt_log]\<rparr>
      in case commit_exc of
           None \<Rightarrow>
             (Inr (Some pkt_log), [],
              db1\<lparr>committed := committed db1 @ pending db1, pending := []\<rparr>)
         | Some (SQLAlchemyError m) \<Rightarrow>
             (Inr None, [Logged ERROR ''DB error in log_packet: %s''], db1\<lparr>pending := []\<rparr>)
         | Some e \<Rightarrow> (Inl e, [], db1))"

subsection \<open>The packet sink: \<^verbatim>\<open>_handle_packet\<close>\<close>

text \<open>
  What the environment does during one call of the handler: the outcome of the commit,
  the two clock readings, and whether \<^verbatim>\<open>emit\<close> raises.
\<close>

record sink_io =
  commit_exc :: "exn option"
  utcnow :: nat
  emit_exc :: "exn option"
  time_now :: nat

text \<open>\<^verbatim>\<open>try: c  except Exception as e: h e\<close> and the sequencing of two statements.\<close>

definition try_except :: "unit outcome \<Rightarrow> (exn \<Rightarrow> effect list) \<Rightarrow> unit outcome" where
  "try_except c h =
     (case c of
        (Inl e, effs, db) \<Rightarrow> (Inr (), effs @ h e, db)
      | (Inr u, effs, db) \<Rightarrow> (Inr u, effs, db))"

definition and_then :: "unit outcome \<Rightarrow> (db_session \<Rightarrow> unit outcome) \<Rightarrow> unit outcome" where
  "and_then c k =
     (case c of
        (Inl e, effs, db) \<Rightarrow> (Inl e, effs, db)
      | (Inr u, effs, db) \<Rightarrow> (case k db of (r, effs', db') \<Rightarrow> (r, effs @ effs', db')))"

text \<open>
  Lines 286-294: the body of the first inner \<^verbatim>\<open>try\<close>. Entering the application
  context and importing \<^verbatim>\<open>db_service\<close> are taken to succeed; the call of
  \<^verbatim>\<open>log_packet\<close> is recorded and its return value is dropped.
\<close>

definition db_write ::
  "sink_io \<Rightarrow> int \<Rightarrow> string \<Rightarrow> string \<Rightarrow> string \<Rightarrow> nat \<Rightarrow> db_session \<Rightarrow> unit outcome" where
  "db_write io session_id protocol source_ip dest_ip size_bytes db =
     (case log_packet (commit_exc io) (utcnow io)
             session_id protocol source_ip dest_ip size_bytes db of
        (r, effs, db') \<Rightarrow>
          (map_sum id (\<lambda>_. ()) r,
           LogPacketCall session_id protocol source_ip dest_ip size_bytes # effs, db'))"

text \<open>Line 304: the body of the second inner \<^verbatim>\<open>try\<close>.\<close>

definition emit_update :: "sink_io \<Rightarrow> sio \<Rightarrow> packet_data \<Rightarrow> db_session \<Rightarrow> unit outcome" where
  "emit_update io s packet_data db =
     (case emit_exc io of
        None \<Rightarrow> (Inr (), [EmitCall s ''packet_update'' packet_data ''/''], db)
      | Some e \<Rightarrow> (Inl e, [EmitCall s ''packet_update'' packet_data ''/''], db))"

text \<open>
  \<^verbatim>\<open>_handle_packet(packet, session_id, app)\<close>; the second argument is the module global
  \<^verbatim>\<open>_socketio\<close>. The deferred import of the Scapy layers is taken to succeed: the
  handler is only ever called by Scapy's \<^verbatim>\<open>sniff\<close>.
\<close>

definition handle_packet ::
  "sink_io \<Rightarrow> sio option \<Rightarrow> packet \<Rightarrow> int \<Rightarrow> app \<Rightarrow> db_session \<Rightarrow> unit outcome" where
  "handle_packet io socketio packet session_id app db =
     try_except
       (case layer_IP packet of
          None \<Rightarrow> (Inr (), [], db)
        | Some ip \<Rightarrow>
            (let source_ip = src ip;
                 dest_ip = dst ip;
                 size_bytes = wire_len packet;
                 protocol = protocol_name packet ip;
                 packet_data = \<lparr>pd_protocol = protocol, pd_source_ip = source_ip,
                                 pd_dest_ip = dest_ip, pd_size_bytes = size_bytes,
                                 pd_session_id = session_id, pd_timestamp = time_now io\<rparr>
             in and_then
                  (and_then
                     (Inr (), [Logged DEBUG ''Packet: %s %s -> %s (%d bytes)''], db)
                     (\<lambda>db. try_except
                              (db_write io session_id protocol source_ip dest_ip size_bytes db)
                              (\<lambda>db_exc. [Logged ERROR ''Failed to log packet to DB: %s''])))
                  (\<lambda>db. case socketio of
                           None \<Rightarrow> (Inr (), [], db)
                         | Some s \<Rightarrow>
                             try_except (emit_update io s packet_data db)
                               (\<lambda>sio_exc. [Logged ERROR ''Failed to emit packet_update: %s'']))))
       (\<lambda>exc. [Logged ERROR ''Error handling packet: %s''])"

subsection \<open>Module state of \<^verbatim>\<open>packet_monitor\<close>\<close>

text \<open>
  The control point of one run of \<^verbatim>\<open>_capture_loop\<close>: before the deferred import of
  \<^verbatim>\<open>sniff\<close>, at the test of the \<^verbatim>\<open>while\<close>, inside the call of \<^verbatim>\<open>sniff\<close>, or
  returned. A thread is alive until its target function has returned.
\<close>

datatype pc = AtImport | AtHead | InSniff | Exited

text \<open>
  A \<^verbatim>\<open>threading.Thread\<close> started by \<^verbatim>\<open>start_monitor\<close>: the three arguments of its
  target \<^verbatim>\<open>_capture_loop(session_id, app, stop_event)\<close>, the event given by its index in
  the store of events, and where the target stands.
\<close>

record thread =
  t_session_id :: int
  t_app :: app
  t_stop_event :: nat
  t_pc :: pc

text \<open>
  The store of \<^verbatim>\<open>threading.Event\<close> objects (the flag of each, in order of creation),
  the store of threads, the five module globals, the database and the trace of effects.
\<close>

record monitor =
  events :: "bool list"
  threads :: "thread list"
  monitor_thread :: "nat option"
  current_session_id :: "int option"
  app_ref :: "app option"
  socketio :: "sio option"
  stop_event :: "nat option"
  database :: db_session
  trace :: "effect list"

text \<open>
  The module as imported: line 80 creates an event, line 89 rebinds \<^verbatim>\<open>_stop_event\<close>
  to \<^verbatim>\<open>None\<close>, every other global is \<^verbatim>\<open>None\<close>.
\<close>

definition init :: monitor where
  "init = \<lparr>events = [False], threads = [], monitor_thread = None,
           current_session_id = None, app_ref = None, socketio = None,
           stop_event = None, database = \<lparr>committed = [], pending = []\<rparr>, trace = []\<rparr>"

definition is_set :: "monitor \<Rightarrow> nat \<Rightarrow> bool" where
  "is_set st e = (e < length (events st) \<and> events st ! e)"

definition set_event :: "nat \<Rightarrow> monitor \<Rightarrow> monitor" where
  "set_event e st = st\<lparr>events := (events st)[e := True]\<rparr>"

definition is_alive :: "monitor \<Rightarrow> nat \<Rightarrow> bool" where
  "is_alive st t = (t < length (threads st) \<and> t_pc (threads st ! t) \<noteq> Exited)"

definition logged :: "level \<Rightarrow> string \<Rightarrow> monitor \<Rightarrow> monitor" where
  "logged l m st = st\<lparr>trace := trace st @ [Logged l m]\<rparr>"

definition set_pc :: "nat \<Rightarrow> pc \<Rightarrow> monitor \<Rightarrow> monitor" where
  "set_pc t p st = st\<lparr>threads := (threads st)[t := (threads st ! t)\<lparr>t_pc := p\<rparr>]\<rparr>"

text \<open>The capture loops that are alive: the threads whose target has not returned.\<close>

definition live_threads :: "monitor \<Rightarrow> nat list" where
  "live_threads st = filter (is_alive st) [0 ..< length (threads st)]"

subsection \<open>Public API\<close>

definition set_socketio :: "sio \<Rightarrow> monitor \<Rightarrow> monitor" where
  "set_socketio s st =
     logged DEBUG ''packet_monitor: SocketIO instance registered'' (st\<lparr>socketio := Some s\<rparr>)"

text \<open>
  \<^verbatim>\<open>start_monitor(session_id, app)\<close>. The new event and the new thread are appended to
  their stores, so their identities are the lengths of the stores before the call.
\<close>

definition start_monitor :: "int \<Rightarrow> app \<Rightarrow> monitor \<Rightarrow> bool \<times> monitor" where
  "start_monitor session_id app st =
     (if (case monitor_thread st of None \<Rightarrow> False | Some t \<Rightarrow> is_alive st t) then
        (False, logged WARNING ''Packet monitor already running - ignoring start request'' st)
      else
        (let ev = length (events st);
             tid = length (threads st);
             st1 = st\<lparr>events := events st @ [False],
                      stop_event := Some ev,
                      current_session_id := Some session_id,
                      app_ref := Some app\<rparr>;
             st2 = st1\<lparr>threads := threads st1 @
                         [\<lparr>t_session_id = session_id, t_app = app,
                           t_stop_event = ev, t_pc = AtImport\<rparr>],
                       monitor_thread := Some tid\<rparr>
         in (True, logged INFO ''Packet monitor started (session_id=%d, TV_IP=%s)'' st2)))"

definition is_running :: "monitor \<Rightarrow> bool" where
  "is_running st = (case monitor_thread st of None \<Rightarrow> False | Some t \<Rightarrow> is_alive st t)"

subsection \<open>The capture loop\<close>

text \<open>
  What can happen next in a capture thread. \<open>Import ok\<close>: the deferred import of
  \<^verbatim>\<open>sniff\<close> succeeds or raises \<^verbatim>\<open>ImportError\<close>. \<open>Head\<close>: the test of the
  \<^verbatim>\<open>while\<close>. Inside \<^verbatim>\<open>sniff\<close>, which is Scapy's and not this repository's:
  \<open>Deliver\<close>, a frame matching the filter is passed to \<^verbatim>\<open>prn\<close> and then
  \<^verbatim>\<open>stop_filter\<close> is asked; \<open>SniffReturn\<close>, the one-second timeout ends the call;
  \<open>SniffRaise\<close>, the call raises.
\<close>

datatype thread_action =
    Import bool
  | Head
  | Deliver packet sink_io
  | SniffReturn
  | SniffRaise exn

text \<open>Line 231, after the loop: the last log line, then the target returns.\<close>

definition loop_exit :: "nat \<Rightarrow> monitor \<Rightarrow> monitor" where
  "loop_exit t st = set_pc t Exited (logged INFO ''Packet capture loop exited'' st)"

text \<open>Lines 219-229: the two \<^verbatim>\<open>except\<close> clauses around \<^verbatim>\<open>sniff\<close>.\<close>

definition sniff_raised :: "nat \<Rightarrow> exn \<Rightarrow> monitor \<Rightarrow> monitor" where
  "sniff_raised t e st =
     (case e of
        PermissionError m \<Rightarrow>
          loop_exit t
            (logged ERROR ''Scapy requires root privileges to capture packets on macOS.'' st)
      | _ \<Rightarrow>
          if is_set st (t_stop_event (threads st ! t)) then loop_exit t st
          else set_pc t AtHead
                 (st\<lparr>trace := trace st @
                        [Logged ERROR ''Scapy sniff error: %s - retrying in 2s'', Slept 2]\<rparr>))"

text \<open>
  One step of thread \<open>t\<close>. An action that does not fit the control point of the thread
  (or a thread that does not exist) leaves the state as it is.
\<close>

definition thread_step :: "nat \<Rightarrow> thread_action \<Rightarrow> monitor \<Rightarrow> monitor" where
  "thread_step t a st =
     (if t < length (threads st) then
        (let th = threads st ! t in
         case (t_pc th, a) of
           (AtImport, Import ok) \<Rightarrow>
             if ok then set_pc t AtHead (logged INFO ''Packet capture BPF filter: %r'' st)
             else set_pc t Exited
                    (logged ERROR ''Scapy is not installed. Install it with: pip install scapy'' st)
         | (AtHead, Head) \<Rightarrow>
             if is_set st (t_stop_event th) then loop_exit t st
             else set_pc t InSniff (logged DEBUG ''Starting scapy.sniff() with filter=%r'' st)
         | (InSniff, Deliver packet io) \<Rightarrow>
             (case handle_packet io (socketio st) packet (t_session_id th) (t_app th) (database st) of
                (r, effs, db') \<Rightarrow>
                  (let st1 = st\<lparr>database := db', trace := trace st @ effs\<rparr> in
                   case r of
                     Inl e \<Rightarrow> sniff_raised t e st1
                   | Inr u \<Rightarrow> if is_set st1 (t_stop_event th) then set_pc t AtHead st1 else st1))
         | (InSniff, SniffReturn) \<Rightarrow> set_pc t AtHead st
         | (InSniff, SniffRaise e) \<Rightarrow> sniff_raised t e st
         | _ \<Rightarrow> st)
      else st)"

fun run_threads :: "(nat \<times> thread_action) list \<Rightarrow> monitor \<Rightarrow> monitor" where
  "run_threads [] st = st"
| "run_threads ((t, a) # as) st = run_threads as (thread_step t a st)"

text \<open>
  \<^verbatim>\<open>stop_monitor(timeout)\<close>. The first argument is what the capture threads do while
  the caller is blocked in \<^verbatim>\<open>thread.join(timeout=timeout)\<close>; whether the join timed out
  is read off the thread afterwards, as the code does.
\<close>

definition stop_monitor :: "(nat \<times> thread_action) list \<Rightarrow> monitor \<Rightarrow> monitor" where
  "stop_monitor during st =
     (let thread = monitor_thread st;
          event = stop_event st
      in case thread of
           None \<Rightarrow> logged DEBUG ''Packet monitor not running - nothing to stop'' st
         | Some t \<Rightarrow>
             if \<not> is_alive st t then
               logged DEBUG ''Packet monitor not running - nothing to stop'' st
             else
               (let st1 = logged INFO ''Stopping packet monitor...'' st;
                    st2 = (case event of None \<Rightarrow> st1 | Some e \<Rightarrow> set_event e st1);
                    st3 = run_threads during st2;
                    st4 = (if is_alive st3 t
                           then logged WARNING ''Packet monitor thread did not stop within %.1fs'' st3
                           else logged INFO ''Packet monitor stopped cleanly'' st3)
                in st4\<lparr>monitor_thread := None\<rparr>))"

subsection \<open>Runs of the module\<close>

text \<open>
  What happens to the module, one thing at a time: a call of the public API or a step
  of a capture thread.
\<close>

datatype call =
    Start int app
  | Stop "(nat \<times> thread_action) list"
  | SetSocketIO sio
  | Thread nat thread_action

fun step :: "call \<Rightarrow> monitor \<Rightarrow> monitor" where
  "step (Start session_id a) st = snd (start_monitor session_id a st)"
| "step (Stop during) st = stop_monitor during st"
| "step (SetSocketIO s) st = set_socketio s st"
| "step (Thread t a) st = thread_step t a st"

fun run :: "call list \<Rightarrow> monitor \<Rightarrow> monitor" where
  "run [] st = st"
| "run (c # cs) st = run cs (step c st)"

subsection \<open>Reading traces and runs\<close>

definition result_of :: "'a outcome \<Rightarrow> exn + 'a" where
  "result_of c = fst c"

definition effects_of :: "'a outcome \<Rightarrow> effect list" where
  "effects_of c = fst (snd c)"

definition db_of :: "'a outcome \<Rightarrow> db_session" where
  "db_of c = snd (snd c)"

fun is_record_call :: "effect \<Rightarrow> bool" where
  "is_record_call (LogPacketCall s p a b n) = True"
| "is_record_call e = False"

fun is_emit_call :: "effect \<Rightarrow> bool" where
  "is_emit_call (EmitCall s ev d ns) = True"
| "is_emit_call e = False"

fun is_error_log :: "effect \<Rightarrow> bool" where
  "is_error_log (Logged ERROR m) = True"
| "is_error_log e = False"

fun is_sleep :: "effect \<Rightarrow> bool" where
  "is_sleep (Slept n) = True"
| "is_sleep e = False"

definition record_calls :: "effect list \<Rightarrow> effect list" where
  "record_calls effs = filter is_record_call effs"

definition emit_calls :: "effect list \<Rightarrow> effect list" where
  "emit_calls effs = filter is_emit_call effs"

definition error_logs :: "effect list \<Rightarrow> effect list" where
  "error_logs effs = filter is_error_log effs"

definition sleeps :: "effect list \<Rightarrow> effect list" where
  "sleeps effs = filter is_sleep effs"

fun is_permission_error :: "exn \<Rightarrow> bool" where
  "is_permission_error (PermissionError m) = True"
| "is_permission_error e = False"

fun is_injection :: "call \<Rightarrow> bool" where
  "is_injection (SetSocketIO s) = True"
| "is_injection c = False"

text \<open>The live capture loops whose cancellation token has not been set.\<close>

definition unsignalled :: "monitor \<Rightarrow> nat list" where
  "unsignalled st =
     filter (\<lambda>t. \<not> is_set st (t_stop_event (threads st ! t))) (live_threads st)"

text \<open>
  A call of \<^verbatim>\<open>stop_monitor\<close> times out when the thread it found alive is still alive
  when the join returns. \<open>timed_out cs st\<close>: some stop of the run \<open>cs\<close> from \<open>st\<close>
  times out.
\<close>

definition join_timed_out :: "(nat \<times> thread_action) list \<Rightarrow> monitor \<Rightarrow> bool" where
  "join_timed_out during st =
     (case monitor_thread st of
        None \<Rightarrow> False
      | Some t \<Rightarrow> is_alive st t \<and> is_alive (stop_monitor during st) t)"

fun timed_out :: "call list \<Rightarrow> monitor \<Rightarrow> bool" where
  "timed_out [] st = False"
| "timed_out (Stop during # cs) st =
     (join_timed_out during st \<or> timed_out cs (stop_monitor during st))"
| "timed_out (c # cs) st = timed_out cs (step c st)"

text \<open>\<open>n\<close> rounds of: \<^verbatim>\<open>sniff\<close> raises \<open>e\<close>, then the test of the \<^verbatim>\<open>while\<close>.\<close>

fun failing_rounds :: "nat \<Rightarrow> nat \<Rightarrow> exn \<Rightarrow> (nat \<times> thread_action) list" where
  "failing_rounds 0 t e = []"
| "failing_rounds (Suc n) t e = (t, SniffRaise e) # (t, Head) # failing_rounds n t e"

text \<open>
  The state in which the join of \<^verbatim>\<open>stop_monitor\<close> returns: the stored event is
  set, then the capture threads have run.
\<close>

definition stop_joined :: "(nat \<times> thread_action) list \<Rightarrow> monitor \<Rightarrow> monitor" where
  "stop_joined during st =
     run_threads during
       (case stop_event st of
          None \<Rightarrow> logged INFO ''Stopping packet monitor...'' st
        | Some e \<Rightarrow> set_event e (logged INFO ''Stopping packet monitor...'' st))"

subsection \<open>Invariants of the module state\<close>

text \<open>Every thread's token is an event of the store.\<close>

definition tokens_allocated :: "monitor \<Rightarrow> bool" where
  "tokens_allocated st =
     (\<forall>t < length (threads st). t_stop_event (threads st ! t) < length (events st))"

text \<open>
  The stored handle names a thread of the store, and the stored event and session id
  are that thread's.
\<close>

definition handle_ok :: "monitor \<Rightarrow> bool" where
  "handle_ok st =
     (case monitor_thread st of
        None \<Rightarrow> True
      | Some t \<Rightarrow> t < length (threads st)
                 \<and> stop_event st = Some (t_stop_event (threads st ! t))
                 \<and> current_session_id st = Some (t_session_id (threads st ! t)))"

text \<open>A live thread that the handle does not name has had its token set.\<close>

definition orphans_signalled :: "monitor \<Rightarrow> bool" where
  "orphans_signalled st =
     (\<forall>t. is_alive st t \<and> monitor_thread st \<noteq> Some t \<longrightarrow>
          is_set st (t_stop_event (threads st ! t)))"

definition inv :: "monitor \<Rightarrow> bool" where
  "inv st = (tokens_allocated st \<and> handle_ok st \<and> orphans_signalled st)"

text \<open>Every live thread is the one the handle names.\<close>

definition tracked :: "monitor \<Rightarrow> bool" where
  "tracked st = (\<forall>t. is_alive st t \<longrightarrow> monitor_thread st = Some t)"

subsection \<open>Example inputs\<close>

definition example_io :: sink_io where
  "example_io = \<lparr>commit_exc = None, utcnow = 1700000000, emit_exc = None, time_now = 1700000000\<rparr>"

definition failing_io :: sink_io where
  "failing_io = \<lparr>commit_exc = Some (OtherException ''database is locked''), utcnow = 1700000000,
                  emit_exc = Some (OtherException ''emit failed''), time_now = 1700000000\<rparr>"

definition tcp_frame :: packet where
  "tcp_frame = \<lparr>layer_IP = Some \<lparr>src = ''203.0.113.50'', dst = ''10.0.0.5'', proto = 6\<rparr>,
                 has_TCP = True, has_UDP = False, has_ICMP = False, wire_len = 512\<rparr>"

definition tcp_udp_frame :: packet where
  "tcp_udp_frame = \<lparr>layer_IP = Some \<lparr>src = ''203.0.113.50'', dst = ''10.0.0.5'', proto = 6\<rparr>,
                     has_TCP = True, has_UDP = True, has_ICMP = False, wire_len = 60\<rparr>"

definition arp_frame :: packet where
  "arp_frame = \<lparr>layer_IP = None, has_TCP = False, has_UDP = False, has_ICMP = False,
                 wire_len = 42\<rparr>"

definition empty_db :: db_session where
  "empty_db = \<lparr>committed = [], pending = []\<rparr>"

section \<open>Properties of the packet sink\<close>

subsection \<open>Decimal rendering\<close>

lemma digit_cases: "d < 10 \<Longrightarrow> d \<in> {0, 1, 2, 3, 4, 5, 6, 7, 8, 9::nat}"
  by auto

lemma digit_val_digit_char: "d < 10 \<Longrightarrow> digit_val (digit_char d) = d"
  using digit_cases[of d] by (auto simp: digit_val_def digit_char_def)

lemma int_of_str_snoc: "int_of_str (s @ [c]) = 10 * int_of_str s + digit_val c"
  by (simp add: int_of_str_def)

lemma int_of_str_single: "int_of_str [c] = digit_val c"
  by (simp add: int_of_str_def)

lemma int_of_str_str_nat: "int_of_str (str_nat n) = n"
proof (induction n rule: str_nat.induct)
  case (1 n)
  show ?case
  proof (cases "n < 10")
    case True
    then show ?thesis
      by (subst str_nat.simps) (simp add: int_of_str_single digit_val_digit_char)
  next
    case False
    with 1 have "int_of_str (str_nat (n div 10)) = n div 10" by simp
    with False show ?thesis
      by (subst str_nat.simps) (simp add: int_of_str_snoc digit_val_digit_char)
  qed
qed

lemma digit_char_is_digit: "d < 10 \<Longrightarrow> is_digit (digit_char d)"
  using digit_cases[of d] by (auto simp: digit_char_def is_digit_def)

lemma str_nat_digits: "list_all is_digit (str_nat n)"
proof (induction n rule: str_nat.induct)
  case (1 n)
  show ?case
  proof (cases "n < 10")
    case True
    then show ?thesis
      by (subst str_nat.simps) (simp add: digit_char_is_digit)
  next
    case False
    with 1 have "list_all is_digit (str_nat (n div 10))" by simp
    with False show ?thesis
      by (subst str_nat.simps) (simp add: digit_char_is_digit)
  qed
qed

subsection \<open>What one call of the handler does\<close>

lemma db_write_effects:
  "effects_of (db_write io sid pr s d n db) =
     LogPacketCall sid pr s d n #
       (case commit_exc io of Some (SQLAlchemyError m) \<Rightarrow> [Logged ERROR ''DB error in log_packet: %s''] | _ \<Rightarrow> [])"
  by (simp add: db_write_def log_packet_def effects_of_def Let_def split: option.splits exn.splits)

lemma handle_packet_non_ip:
  "layer_IP p = None \<Longrightarrow> handle_packet io s p sid a db = (Inr (), [], db)"
  by (simp add: handle_packet_def try_except_def)

lemma handle_packet_ip:
  "layer_IP p = Some ip \<Longrightarrow>
   handle_packet io s p sid a db =
     (Inr (),
      Logged DEBUG ''Packet: %s %s -> %s (%d bytes)'' #
      effects_of (db_write io sid (protocol_name p ip) (src ip) (dst ip) (wire_len p) db) @
      (case result_of (db_write io sid (protocol_name p ip) (src ip) (dst ip) (wire_len p) db) of
         Inl e \<Rightarrow> [Logged ERROR ''Failed to log packet to DB: %s''] | Inr u \<Rightarrow> []) @
      (case s of None \<Rightarrow> []
       | Some i \<Rightarrow>
           EmitCall i ''packet_update''
             \<lparr>pd_protocol = protocol_name p ip, pd_source_ip = src ip, pd_dest_ip = dst ip,
              pd_size_bytes = wire_len p, pd_session_id = sid, pd_timestamp = time_now io\<rparr> ''/'' #
           (case emit_exc io of None \<Rightarrow> [] | Some e \<Rightarrow> [Logged ERROR ''Failed to emit packet_update: %s''])),
      db_of (db_write io sid (protocol_name p ip) (src ip) (dst ip) (wire_len p) db))"
  by (simp add: handle_packet_def try_except_def and_then_def emit_update_def
        effects_of_def result_of_def db_of_def Let_def
      split: option.splits prod.splits sum.splits)

lemma db_write_result:
  "result_of (db_write io sid pr s d n db) =
     (case commit_exc io of None \<Rightarrow> Inr () | Some (SQLAlchemyError m) \<Rightarrow> Inr () | Some e \<Rightarrow> Inl e)"
  by (simp add: db_write_def log_packet_def result_of_def Let_def split: option.splits exn.splits)

lemma db_write_db:
  "db_of (db_write io sid pr s d n db) = db_of (log_packet (commit_exc io) (utcnow io) sid pr s d n db)"
  by (simp add: db_write_def db_of_def split: prod.splits)

lemma handle_packet_result: "result_of (handle_packet io s p sid a db) = Inr ()"
  by (cases "layer_IP p") (simp_all add: handle_packet_non_ip handle_packet_ip result_of_def)

lemma handle_packet_record_calls:
  "layer_IP p = Some ip \<Longrightarrow>
   record_calls (effects_of (handle_packet io s p sid a db)) =
     [LogPacketCall sid (protocol_name p ip) (src ip) (dst ip) (wire_len p)]"
  by (simp add: handle_packet_ip effects_of_def[of "(x, y, z)" for x y z] db_write_effects db_write_result
        record_calls_def split: option.splits exn.splits)

lemma handle_packet_emit_calls:
  "layer_IP p = Some ip \<Longrightarrow>
   emit_calls (effects_of (handle_packet io s p sid a db)) =
     (case s of None \<Rightarrow> []
      | Some i \<Rightarrow> [EmitCall i ''packet_update''
             \<lparr>pd_protocol = protocol_name p ip, pd_source_ip = src ip, pd_dest_ip = dst ip,
              pd_size_bytes = wire_len p, pd_session_id = sid, pd_timestamp = time_now io\<rparr> ''/''])"
  by (simp add: handle_packet_ip effects_of_def[of "(x, y, z)" for x y z] db_write_effects db_write_result
        emit_calls_def split: option.splits exn.splits)

lemma handle_packet_error_logs:
  "layer_IP p = Some ip \<Longrightarrow>
   error_logs (effects_of (handle_packet io s p sid a db)) =
     (case commit_exc io of
        None \<Rightarrow> []
      | Some (SQLAlchemyError m) \<Rightarrow> [Logged ERROR ''DB error in log_packet: %s'']
      | Some e \<Rightarrow> [Logged ERROR ''Failed to log packet to DB: %s'']) @
     (case s of
        None \<Rightarrow> []
      | Some i \<Rightarrow> (case emit_exc io of
                     None \<Rightarrow> []
                   | Some e \<Rightarrow> [Logged ERROR ''Failed to emit packet_update: %s'']))"
  by (simp add: handle_packet_ip effects_of_def[of "(x, y, z)" for x y z] db_write_effects db_write_result
        error_logs_def split: option.splits exn.splits)

lemma handle_packet_db:
  "layer_IP p = Some ip \<Longrightarrow>
   db_of (handle_packet io s p sid a db) =
     db_of (log_packet (commit_exc io) (utcnow io) sid (protocol_name p ip) (src ip) (dst ip) (wire_len p) db)"
  by (simp add: handle_packet_ip db_of_def[of "(x, y, z)" for x y z] db_write_db)

lemma deliver_keeps_alive:
  assumes "t < length (threads st)" "t_pc (threads st ! t) = InSniff"
  shows "is_alive (thread_step t (Deliver p io) st) t"
proof -
  obtain r effs db' where h: "handle_packet io (socketio st) p (t_session_id (threads st ! t))
      (t_app (threads st ! t)) (database st) = (r, effs, db')"
    by (cases "handle_packet io (socketio st) p (t_session_id (threads st ! t))
      (t_app (threads st ! t)) (database st)") auto
  have "r = Inr ()" using handle_packet_result[of io "socketio st" p "t_session_id (threads st ! t)"
      "t_app (threads st ! t)" "database st"] h by (simp add: result_of_def)
  with assms h show ?thesis
    by (simp add: thread_step_def Let_def is_alive_def set_pc_def)
qed

section \<open>The claims about the packet sink\<close>

text \<open>
  Claim C5. For a frame with an IP layer, the protocol passed to the persistence call is
  \<open>TCP\<close> when the frame has a TCP layer, whatever else it has; otherwise \<open>UDP\<close> when it
  has a UDP layer; otherwise \<open>ICMP\<close> when it has an ICMP layer; otherwise the protocol
  number of the IP header written in decimal. The decimal string consists of digits and
  reads back as the number.
\<close>

theorem classification_order:
  assumes "layer_IP p = Some ip"
  shows "record_calls (effects_of (handle_packet io s p sid a db)) =
           [LogPacketCall sid
              (if has_TCP p then ''TCP''
               else if has_UDP p then ''UDP''
               else if has_ICMP p then ''ICMP''
               else str_nat (proto ip))
              (src ip) (dst ip) (wire_len p)]
         \<and> int_of_str (str_nat (proto ip)) = proto ip
         \<and> list_all is_digit (str_nat (proto ip))"
  using assms
  by (simp add: handle_packet_record_calls protocol_name_def int_of_str_str_nat str_nat_digits)

text \<open>A frame that has both a TCP and a UDP layer is recorded as \<open>TCP\<close>.\<close>

theorem classification_order_witness:
  "layer_IP tcp_udp_frame = Some \<lparr>src = ''203.0.113.50'', dst = ''10.0.0.5'', proto = 6\<rparr>
   \<and> has_TCP tcp_udp_frame \<and> has_UDP tcp_udp_frame
   \<and> record_calls (effects_of (handle_packet example_io None tcp_udp_frame 7 (Flask 0) empty_db)) =
       [LogPacketCall 7 ''TCP'' ''203.0.113.50'' ''10.0.0.5'' 60]"
  using classification_order
    [of tcp_udp_frame "\<lparr>src = ''203.0.113.50'', dst = ''10.0.0.5'', proto = 6\<rparr>"
      example_io None 7 "Flask 0" empty_db]
  by (simp add: tcp_udp_frame_def)

text \<open>
  Claim C8. A frame without an IP layer is skipped silently: the handler returns
  normally, with no effect at all (no log line, no persistence call, no event) and with
  the database as it was; delivered to a capture thread, it leaves the trace and the
  database of the module unchanged.
\<close>

theorem non_ip_skipped:
  assumes "layer_IP p = None"
  shows "handle_packet io s p sid a db = (Inr (), [], db)
         \<and> trace (thread_step t (Deliver p io) st) = trace st
         \<and> database (thread_step t (Deliver p io) st) = database st"
  using assms
  by (simp add: handle_packet_non_ip thread_step_def Let_def set_pc_def split: pc.splits)

theorem non_ip_skipped_witness:
  "layer_IP arp_frame = None
   \<and> handle_packet example_io (Some (SocketIO 0)) arp_frame 7 (Flask 0) empty_db =
       (Inr (), [], empty_db)"
  using non_ip_skipped [of arp_frame example_io "Some (SocketIO 0)" 7 "Flask 0" empty_db]
  by (simp add: arp_frame_def)

end
